theory Spec2Isabelle
  imports Main "HOL-Library.AList"
begin

section \<open>The response-caching middleware of \<^verbatim>\<open>cache.go\<close>\<close>

text \<open>
  The development embeds \<^verbatim>\<open>src/cache.go\<close>: the capture writer
  \<^verbatim>\<open>responseCacheWriter\<close>, the snapshot \<^verbatim>\<open>responseCache\<close>, the pool helpers of
  \<^verbatim>\<open>cacheHelper\<close>, the replay procedure \<^verbatim>\<open>respondWithCache\<close> and the request closure that
  \<^verbatim>\<open>Cache\<close> returns. Everything the file imports (gin's context and response writer,
  \<^verbatim>\<open>net/http\<close>'s header map, \<^verbatim>\<open>sync.Pool\<close>, the \<^verbatim>\<open>persist.CacheStore\<close> backend and the
  \<^verbatim>\<open>singleflight\<close> group) is a collaborator: its state is kept as small as the code
  needs it, and what it answers during one request is an input of the request.
\<close>

subsection \<open>Values\<close>

type_synonym bytes = "char list"

text \<open>
  \<^verbatim>\<open>http.Header\<close> is \<^verbatim>\<open>map[string][]string\<close>. The code ranges over it, so it is an
  association list with one entry per key; the order of the list stands for the order in
  which Go happens to visit the keys. \<^verbatim>\<open>Set\<close> replaces the values of a key by one value,
  \<^verbatim>\<open>Add\<close> appends one value. (\<^verbatim>\<open>net/http\<close> also normalises the letter case of the key;
  keys are taken as already normalised.)
\<close>

type_synonym header = "(string \<times> string list) list"

definition header_Set :: "header \<Rightarrow> string \<Rightarrow> string \<Rightarrow> header" where
  "header_Set h k v = AList.update k [v] h"

definition header_Add :: "header \<Rightarrow> string \<Rightarrow> string \<Rightarrow> header" where
  "header_Add h k v =
     AList.update k (case map_of h k of None \<Rightarrow> [v] | Some vs \<Rightarrow> vs @ [v]) h"

datatype error = ErrCacheMiss | ErrShortWrite | Err string

subsection \<open>The response sink\<close>

text \<open>
  The sink at the bottom of \<^verbatim>\<open>c.Writer\<close> (gin's own response writer): the status it
  holds, its header map, the body bytes it accepted, and the calls it received, oldest
  first. The first \<^verbatim>\<open>Write\<close> sends the status and the headers as they stand; \<open>sent\<close> is
  that response head, and later changes of the status or the header map do not reach the
  client. \<^verbatim>\<open>WriteHeader\<close> is gin's: a code that is not positive is ignored, and so is (as
  gin 1.9 and later do) a code given once the head is sent; the call is recorded either way.
  \<open>room\<close> is the failure of the connection: \<open>None\<close> accepts every write,
  \<open>Some r\<close> accepts \<open>r\<close> more bytes and then fails the write that exceeds them, returning
  the count it did accept.
\<close>

datatype sink_call = CWriteHeader int | CHeaderSet string string | CHeaderAdd string string
  | CWrite bytes

record sink =
  sink_status :: int
  sink_header :: header
  sent :: "(int \<times> header) option"
  sink_body :: bytes
  room :: "nat option"
  calls :: "sink_call list"

definition send_head :: "sink \<Rightarrow> sink" where
  "send_head s =
     (case sent s of None \<Rightarrow> s\<lparr>sent := Some (sink_status s, sink_header s)\<rparr> | Some h \<Rightarrow> s)"

definition sink_WriteHeader :: "sink \<Rightarrow> int \<Rightarrow> sink" where
  "sink_WriteHeader s code =
     (if code > 0 \<and> sink_status s \<noteq> code
      then (if sent s \<noteq> None then s\<lparr>calls := calls s @ [CWriteHeader code]\<rparr>
            else s\<lparr>sink_status := code, calls := calls s @ [CWriteHeader code]\<rparr>)
      else s\<lparr>calls := calls s @ [CWriteHeader code]\<rparr>)"

definition sink_Header_Set :: "sink \<Rightarrow> string \<Rightarrow> string \<Rightarrow> sink" where
  "sink_Header_Set s k v =
     s\<lparr>sink_header := header_Set (sink_header s) k v, calls := calls s @ [CHeaderSet k v]\<rparr>"

definition sink_Header_Add :: "sink \<Rightarrow> string \<Rightarrow> string \<Rightarrow> sink" where
  "sink_Header_Add s k v =
     s\<lparr>sink_header := header_Add (sink_header s) k v, calls := calls s @ [CHeaderAdd k v]\<rparr>"

definition sink_Write :: "sink \<Rightarrow> bytes \<Rightarrow> sink \<times> int \<times> error option" where
  "sink_Write s0 b =
     (let s = send_head s0
      in case room s of
           None \<Rightarrow>
             (s\<lparr>sink_body := sink_body s @ b, calls := calls s @ [CWrite b]\<rparr>,
              int (length b), None)
         | Some r \<Rightarrow>
             if length b \<le> r
             then (s\<lparr>sink_body := sink_body s @ b, room := Some (r - length b),
                      calls := calls s @ [CWrite b]\<rparr>,
                   int (length b), None)
             else (s\<lparr>sink_body := sink_body s @ take r b, room := Some 0,
                      calls := calls s @ [CWrite b]\<rparr>,
                   int r, Some ErrShortWrite))"

subsection \<open>\<^verbatim>\<open>responseCacheWriter\<close>\<close>

text \<open>
  \<^verbatim>\<open>type responseCacheWriter struct { gin.ResponseWriter; body bytes.Buffer }\<close>.
  The embedded field is an interface value: the sink itself, or another capture writer
  (a second caching layer further out). \<open>writer\<close> is that interface value.
\<close>

datatype writer = Sink sink | Capture responseCacheWriter
  and responseCacheWriter = ResponseCacheWriter (ResponseWriter: writer) (body: bytes)

text \<open>
  \<^verbatim>\<open>Write\<close> and \<^verbatim>\<open>WriteString\<close> are the two methods the struct overrides:
  \<^verbatim>\<open>w.body.Write(b); return w.ResponseWriter.Write(b)\<close>. \<open>rw_Write\<close> is the dispatch of
  the call on the interface value. A Go string is its bytes.
\<close>

fun rw_Write :: "writer \<Rightarrow> bytes \<Rightarrow> writer \<times> int \<times> error option"
  and Write :: "responseCacheWriter \<Rightarrow> bytes \<Rightarrow> responseCacheWriter \<times> int \<times> error option"
where
  "rw_Write (Sink s) b = (case sink_Write s b of (s', r) \<Rightarrow> (Sink s', r))"
| "rw_Write (Capture w) b = (case Write w b of (w', r) \<Rightarrow> (Capture w', r))"
| "Write (ResponseCacheWriter rw buf) b =
     (case rw_Write rw b of (rw', r) \<Rightarrow> (ResponseCacheWriter rw' (buf @ b), r))"

fun rw_WriteString :: "writer \<Rightarrow> string \<Rightarrow> writer \<times> int \<times> error option"
  and WriteString :: "responseCacheWriter \<Rightarrow> string \<Rightarrow> responseCacheWriter \<times> int \<times> error option"
where
  "rw_WriteString (Sink s) str = (case sink_Write s str of (s', r) \<Rightarrow> (Sink s', r))"
| "rw_WriteString (Capture w) str = (case WriteString w str of (w', r) \<Rightarrow> (Capture w', r))"
| "WriteString (ResponseCacheWriter rw buf) str =
     (case rw_WriteString rw str of (rw', r) \<Rightarrow> (ResponseCacheWriter rw' (buf @ str), r))"

text \<open>The methods the struct does not override are promoted from the embedded writer.\<close>

fun rw_WriteHeader :: "writer \<Rightarrow> int \<Rightarrow> writer"
  and cw_WriteHeader :: "responseCacheWriter \<Rightarrow> int \<Rightarrow> responseCacheWriter"
where
  "rw_WriteHeader (Sink s) code = Sink (sink_WriteHeader s code)"
| "rw_WriteHeader (Capture w) code = Capture (cw_WriteHeader w code)"
| "cw_WriteHeader (ResponseCacheWriter rw buf) code =
     ResponseCacheWriter (rw_WriteHeader rw code) buf"

fun rw_Header_Set :: "writer \<Rightarrow> string \<Rightarrow> string \<Rightarrow> writer"
  and cw_Header_Set :: "responseCacheWriter \<Rightarrow> string \<Rightarrow> string \<Rightarrow> responseCacheWriter"
where
  "rw_Header_Set (Sink s) k v = Sink (sink_Header_Set s k v)"
| "rw_Header_Set (Capture w) k v = Capture (cw_Header_Set w k v)"
| "cw_Header_Set (ResponseCacheWriter rw buf) k v =
     ResponseCacheWriter (rw_Header_Set rw k v) buf"

fun rw_Header_Add :: "writer \<Rightarrow> string \<Rightarrow> string \<Rightarrow> writer"
  and cw_Header_Add :: "responseCacheWriter \<Rightarrow> string \<Rightarrow> string \<Rightarrow> responseCacheWriter"
where
  "rw_Header_Add (Sink s) k v = Sink (sink_Header_Add s k v)"
| "rw_Header_Add (Capture w) k v = Capture (cw_Header_Add w k v)"
| "cw_Header_Add (ResponseCacheWriter rw buf) k v =
     ResponseCacheWriter (rw_Header_Add rw k v) buf"

fun rw_sink :: "writer \<Rightarrow> sink"
  and cw_sink :: "responseCacheWriter \<Rightarrow> sink"
where
  "rw_sink (Sink s) = s"
| "rw_sink (Capture w) = cw_sink w"
| "cw_sink (ResponseCacheWriter rw buf) = rw_sink rw"

definition cw_Status :: "responseCacheWriter \<Rightarrow> int" where
  "cw_Status w = sink_status (cw_sink w)"

definition cw_Header :: "responseCacheWriter \<Rightarrow> header" where
  "cw_Header w = sink_header (cw_sink w)"

text \<open>\<^verbatim>\<open>reset\<close>: \<^verbatim>\<open>w.body.Reset(); w.ResponseWriter = writer\<close>.\<close>

fun responseCacheWriter_reset :: "responseCacheWriter \<Rightarrow> writer \<Rightarrow> responseCacheWriter" where
  "responseCacheWriter_reset (ResponseCacheWriter rw buf) wr = ResponseCacheWriter wr []"

subsection \<open>\<^verbatim>\<open>responseCache\<close>\<close>

record responseCache =
  Status :: int
  Header :: header
  Data :: bytes

text \<open>\<^verbatim>\<open>c.Data = c.Data[0:0]; c.Header = make(http.Header)\<close>: the status is left as it is.\<close>

definition responseCache_reset :: "responseCache \<Rightarrow> responseCache" where
  "responseCache_reset c = c\<lparr>Data := [], Header := []\<rparr>"

definition fill :: "responseCache \<Rightarrow> responseCacheWriter \<Rightarrow> responseCache" where
  "fill c cacheWriter =
     c\<lparr>Status := cw_Status cacheWriter,
       Data := body cacheWriter,
       Header := fold (\<lambda>(key, value) h. AList.update key value h) (cw_Header cacheWriter) []\<rparr>"

text \<open>The zero value \<^verbatim>\<open>responseCache{}\<close>; a nil map and an empty map read alike.\<close>

definition zero_responseCache :: responseCache where
  "zero_responseCache = \<lparr>Status = 0, Header = [], Data = []\<rparr>"

subsection \<open>Options, helper and the objects of a cache instance\<close>

text \<open>
  Of the store and the logger the code inspects only whether the handle is nil; what the
  store answers is an input of the request (\<open>env\<close> below), what the logger is told is
  among the calls of the request.
\<close>

datatype store_handle = StoreHandle
datatype logger_handle = LoggerHandle

record Options =
  CacheStore :: "store_handle option"
  CacheDuration :: int
  DisableSingleFlight :: bool
  SingleflightForgetTime :: int
  Logger :: "logger_handle option"

text \<open>
  The calls a request makes on its collaborators, in the order made: allocations of a
  snapshot object, \<^verbatim>\<open>sync.Pool\<close>'s \<^verbatim>\<open>Get\<close> and \<^verbatim>\<open>Put\<close> with the object's address, the
  store's \<^verbatim>\<open>Get\<close> and \<^verbatim>\<open>Set\<close>, the logger's \<^verbatim>\<open>Printf\<close>, the group's \<^verbatim>\<open>Do\<close>, and the
  goroutine started to \<^verbatim>\<open>Forget\<close> a key after a delay. Every operation below returns
  the calls it made as its last component.
\<close>

datatype event = EvAlloc nat | EvPoolGet nat | EvPoolPut nat
  | EvStoreGet string | EvStoreSet string responseCache int
  | EvPrintf string error | EvDo string | EvGoForget string int

fun is_StoreSet :: "event \<Rightarrow> bool" where
  "is_StoreSet (EvStoreSet k v ttl) = True"
| "is_StoreSet ev = False"

fun is_StoreGet :: "event \<Rightarrow> bool" where
  "is_StoreGet (EvStoreGet k) = True"
| "is_StoreGet ev = False"

text \<open>
  \<^verbatim>\<open>cacheHelper\<close> holds the pool and the options (its \<^verbatim>\<open>sfGroup\<close> is the collaborator
  behind \<open>do_reply\<close>). \<open>world\<close> adds what the helper's pointers point into: the snapshot
  objects by address and the next free address. The pool is a list of addresses;
  \<^verbatim>\<open>Get\<close> takes the most recently returned one.
\<close>

record cacheHelper =
  responseCachePool :: "nat list"
  options :: Options

record world = cacheHelper +
  heap :: "nat \<Rightarrow> responseCache"
  next_addr :: nat

text \<open>\<^verbatim>\<open>if logger != nil { logger.Printf(fmt, err) }\<close>.\<close>

definition Printf :: "logger_handle option \<Rightarrow> string \<Rightarrow> error \<Rightarrow> event list" where
  "Printf logger fmt err = (if logger \<noteq> None then [EvPrintf fmt err] else [])"

text \<open>\<^verbatim>\<open>&responseCache{...}\<close>: a new object at a fresh address.\<close>

definition alloc_responseCache :: "world \<Rightarrow> nat \<times> world \<times> event list" where
  "alloc_responseCache m =
     (next_addr m,
      m\<lparr>heap := (heap m)(next_addr m := zero_responseCache), next_addr := Suc (next_addr m)\<rparr>,
      [EvAlloc (next_addr m)])"

text \<open>
  \<^verbatim>\<open>newResponseCachePool\<close>: an empty pool whose \<^verbatim>\<open>New\<close> allocates a snapshot with an empty
  header map. \<open>pool_Get\<close> is \<^verbatim>\<open>sync.Pool.Get\<close> on it, \<open>pool_Put\<close> is \<^verbatim>\<open>Put\<close>.
\<close>

definition newResponseCachePool :: "nat list" where
  "newResponseCachePool = []"

definition pool_Get :: "world \<Rightarrow> nat \<times> world \<times> event list" where
  "pool_Get m =
     (case responseCachePool m of
        [] \<Rightarrow> (case alloc_responseCache m of (a, m', evs) \<Rightarrow> (a, m', evs @ [EvPoolGet a]))
      | a # as \<Rightarrow> (a, m\<lparr>responseCachePool := as\<rparr>, [EvPoolGet a]))"

definition pool_Put :: "world \<Rightarrow> nat \<Rightarrow> world \<times> event list" where
  "pool_Put m a = (m\<lparr>responseCachePool := a # responseCachePool m\<rparr>, [EvPoolPut a])"

definition newCacheHelper :: "Options \<Rightarrow> world" where
  "newCacheHelper opts =
     \<lparr>responseCachePool = newResponseCachePool, options = opts,
      heap = (\<lambda>a. zero_responseCache), next_addr = 0\<rparr>"

definition getResponseCache :: "world \<Rightarrow> nat \<times> world \<times> event list" where
  "getResponseCache m =
     (case pool_Get m of
        (respCache, m', evs) \<Rightarrow>
          (respCache,
           m'\<lparr>heap := (heap m')(respCache := responseCache_reset (heap m' respCache))\<rparr>,
           evs))"

definition putResponseCache :: "world \<Rightarrow> nat \<Rightarrow> world \<times> event list" where
  "putResponseCache m c = pool_Put m c"

subsection \<open>The request context and the downstream handler\<close>

text \<open>
  Of \<^verbatim>\<open>gin.Context\<close>: the request's URI and path, the writer, the rest of the handler
  chain, how often it was run, and the abort flag. The downstream handler is the calls it
  makes on the context, in order; it writes through \<^verbatim>\<open>c.Writer\<close> and does not replace
  it. \<^verbatim>\<open>c.Next()\<close> runs it unless the context is aborted; \<^verbatim>\<open>c.Abort()\<close> sets the flag.
\<close>

datatype hop = OpWriteHeader int | OpHeaderSet string string | OpHeaderAdd string string
  | OpWrite bytes | OpWriteString string | OpAbort

record Context =
  RequestURI :: string
  Path :: string
  Writer :: writer
  handlers :: "hop list"
  invoked :: nat
  aborted :: bool

definition Abort :: "Context \<Rightarrow> Context" where
  "Abort c = c\<lparr>aborted := True\<rparr>"

fun exec_op :: "hop \<Rightarrow> Context \<Rightarrow> Context" where
  "exec_op (OpWriteHeader code) c = c\<lparr>Writer := rw_WriteHeader (Writer c) code\<rparr>"
| "exec_op (OpHeaderSet k v) c = c\<lparr>Writer := rw_Header_Set (Writer c) k v\<rparr>"
| "exec_op (OpHeaderAdd k v) c = c\<lparr>Writer := rw_Header_Add (Writer c) k v\<rparr>"
| "exec_op (OpWrite b) c = c\<lparr>Writer := fst (rw_Write (Writer c) b)\<rparr>"
| "exec_op (OpWriteString s) c = c\<lparr>Writer := fst (rw_WriteString (Writer c) s)\<rparr>"
| "exec_op OpAbort c = Abort c"

definition Next :: "Context \<Rightarrow> Context" where
  "Next c =
     (if aborted c then c else fold exec_op (handlers c) (c\<lparr>invoked := Suc (invoked c)\<rparr>))"

text \<open>
  The capture writer that \<^verbatim>\<open>c.Writer\<close> points to. The closure keeps the pointer in
  \<^verbatim>\<open>cacheWriter\<close> and reads the object after the handler ran; the model reads it back
  from the context. The second equation is not reached: the closure has put a capture
  writer there and the handler does not replace it.
\<close>

fun cacheWriter_of :: "writer \<Rightarrow> responseCacheWriter" where
  "cacheWriter_of (Capture w) = w"
| "cacheWriter_of (Sink s) = ResponseCacheWriter (Sink s) []"

subsection \<open>\<^verbatim>\<open>respondWithCache\<close>\<close>

definition respondWithCache :: "world \<Rightarrow> Context \<Rightarrow> responseCache \<Rightarrow> Context \<times> event list" where
  "respondWithCache m c respCache =
     (let w1 = rw_WriteHeader (Writer c) (Status respCache);
          w2 = fold (\<lambda>(k, vals) w. fold (\<lambda>v w. rw_Header_Set w k v) vals w)
                 (Header respCache) w1
      in case rw_Write w2 (Data respCache) of
           (w3, n, err) \<Rightarrow>
             (Abort (c\<lparr>Writer := w3\<rparr>),
              case err of
                None \<Rightarrow> []
              | Some x \<Rightarrow> Printf (Logger (options m)) ''write response error: %v'' x))"

subsection \<open>What the collaborators answer during one request\<close>

text \<open>
  \<open>get_reply\<close>: \<^verbatim>\<open>CacheStore.Get\<close> returns an error, or nil with the stored snapshot
  decoded into the object it was given. \<open>set_reply\<close>: the error of \<^verbatim>\<open>CacheStore.Set\<close>.
  \<open>do_reply\<close>: what \<^verbatim>\<open>sfGroup.Do\<close> does with this caller. \<open>Leader dups\<close>: no call is in
  flight for the key, the function runs in this caller and its value is returned, with
  \<open>dups\<close> as the \<^verbatim>\<open>shared\<close> result: \<^verbatim>\<open>singleflight\<close>'s \<^verbatim>\<open>Do\<close> reports to the caller that
  ran the function whether other callers joined and were handed the same value.
  \<open>Follower w\<close>: a call is in flight, the function is not run, and the caller is handed the
  value \<open>w\<close> of that call (the capture writer of the caller that ran it) with \<^verbatim>\<open>shared\<close>
  true.
\<close>

datatype do_reply = Leader bool | Follower responseCacheWriter

fun shared_of :: "do_reply \<Rightarrow> bool" where
  "shared_of (Leader dups) = dups"
| "shared_of (Follower w) = True"

record env =
  get_reply :: "error + responseCache"
  set_reply :: "error option"
  do_reply :: do_reply

definition CacheStore_Get ::
  "env \<Rightarrow> string \<Rightarrow> nat \<Rightarrow> world \<Rightarrow> error option \<times> world \<times> event list" where
  "CacheStore_Get e key respCache m =
     (case get_reply e of
        Inl err \<Rightarrow> (Some err, m, [EvStoreGet key])
      | Inr v \<Rightarrow> (None, m\<lparr>heap := (heap m)(respCache := v)\<rparr>, [EvStoreGet key]))"

definition CacheStore_Set ::
  "env \<Rightarrow> string \<Rightarrow> responseCache \<Rightarrow> int \<Rightarrow> error option \<times> event list" where
  "CacheStore_Set e key v ttl = (set_reply e, [EvStoreSet key v ttl])"

definition sfGroup_Do ::
  "env \<Rightarrow> string \<Rightarrow> (Context \<times> world \<Rightarrow> responseCacheWriter \<times> Context \<times> world \<times> event list) \<Rightarrow>
   Context \<times> world \<Rightarrow> (responseCacheWriter \<times> bool) \<times> Context \<times> world \<times> event list" where
  "sfGroup_Do e key fn cm =
     (case do_reply e of
        Leader dups \<Rightarrow>
          (case fn cm of (v, c', m', evs) \<Rightarrow> ((v, dups), c', m', EvDo key # evs))
      | Follower v \<Rightarrow> ((v, True), fst cm, snd cm, [EvDo key]))"

subsection \<open>The closure returned by \<^verbatim>\<open>Cache\<close>\<close>

text \<open>Lines 104 to 108: the store write and the report of its error.\<close>

definition setCache :: "Options \<Rightarrow> env \<Rightarrow> string \<Rightarrow> responseCache \<Rightarrow> event list" where
  "setCache opts e cacheKey respCache =
     (case CacheStore_Set e cacheKey respCache (CacheDuration opts) of
        (err, evs) \<Rightarrow>
          evs @ (case err of
                   None \<Rightarrow> []
                 | Some x \<Rightarrow> Printf (Logger opts) ''set cache error: %v'' x))"

text \<open>
  The function handed to \<^verbatim>\<open>Do\<close>, lines 83 to 94: start the forget timer when a positive
  time is configured, run the handler, return the capture writer.
\<close>

definition doFn ::
  "Options \<Rightarrow> string \<Rightarrow> Context \<times> world \<Rightarrow> responseCacheWriter \<times> Context \<times> world \<times> event list" where
  "doFn opts cacheKey cm =
     (let evs = (if SingleflightForgetTime opts > 0
                 then [EvGoForget cacheKey (SingleflightForgetTime opts)] else []);
          c' = Next (fst cm)
      in (cacheWriter_of (Writer c'), c', snd cm, evs))"

text \<open>
  Lines 70 to 108: the writer is swapped for a new capture writer
  (\<^verbatim>\<open>&responseCacheWriter{}\<close> after \<^verbatim>\<open>reset(c.Writer)\<close>), a new snapshot is allocated, the
  handler runs inline or through the group, the snapshot is filled, replayed when
  \<^verbatim>\<open>shared\<close>, and stored.
\<close>

definition writePath ::
  "Options \<Rightarrow> env \<Rightarrow> string \<Rightarrow> Context \<times> world \<Rightarrow> Context \<times> world \<times> event list" where
  "writePath opts e cacheKey cm =
     (let cacheWriter = ResponseCacheWriter (Writer (fst cm)) [];
          c1 = (fst cm)\<lparr>Writer := Capture cacheWriter\<rparr>
      in case alloc_responseCache (snd cm) of
           (respCache, m1, evs1) \<Rightarrow>
             if DisableSingleFlight opts then
               (let c2 = Next c1;
                    m2 = m1\<lparr>heap := (heap m1)
                           (respCache := fill (heap m1 respCache) (cacheWriter_of (Writer c2)))\<rparr>
                in (c2, m2, evs1 @ setCache opts e cacheKey (heap m2 respCache)))
             else
               (case sfGroup_Do e cacheKey (doFn opts cacheKey) (c1, m1) of
                  ((rawCacheWriter, shared), c2, m2, evs2) \<Rightarrow>
                    (let m3 = m2\<lparr>heap := (heap m2)
                                (respCache := fill (heap m2 respCache) rawCacheWriter)\<rparr>
                     in case (if shared then respondWithCache m3 c2 (heap m3 respCache)
                              else (c2, [])) of
                          (c3, evs3) \<Rightarrow>
                            (c3, m3,
                             evs1 @ evs2 @ evs3 @ setCache opts e cacheKey (heap m3 respCache)))))"

text \<open>
  The closure, lines 45 to 109. \<^verbatim>\<open>defer cacheHelper.putResponseCache(respCache)\<close> fixes
  its argument where it stands and runs when the closure returns, on either path.
\<close>

definition HandlerFunc ::
  "(Context \<Rightarrow> string \<times> bool) \<Rightarrow> Options \<Rightarrow> env \<Rightarrow> Context \<times> world \<Rightarrow>
   Context \<times> world \<times> event list" where
  "HandlerFunc handler opts e cm =
     (case handler (fst cm) of
        (cacheKey, needCache) \<Rightarrow>
          if \<not> needCache then (Next (fst cm), snd cm, [])
          else
            (case getResponseCache (snd cm) of
               (respCache, m1, evs1) \<Rightarrow>
                 (case CacheStore_Get e cacheKey respCache m1 of
                    (None, m2, evs2) \<Rightarrow>
                      (case respondWithCache m2 (fst cm) (heap m2 respCache) of
                         (c', evs3) \<Rightarrow>
                           (case putResponseCache m2 respCache of
                              (m3, evs4) \<Rightarrow> (c', m3, evs1 @ evs2 @ evs3 @ evs4)))
                  | (Some err, m2, evs2) \<Rightarrow>
                      (let evs3 = (if err \<noteq> ErrCacheMiss
                                   then Printf (Logger opts) ''get cache: %v'' err else [])
                       in case writePath opts e cacheKey (fst cm, m2) of
                            (c', m3, evs4) \<Rightarrow>
                              (case putResponseCache m3 respCache of
                                 (m4, evs5) \<Rightarrow> (c', m4, evs1 @ evs2 @ evs3 @ evs4 @ evs5))))))"

text \<open>\<^verbatim>\<open>Cache\<close> panics on a nil store; otherwise it makes the helper and returns the closure.\<close>

definition Cache ::
  "(Context \<Rightarrow> string \<times> bool) \<Rightarrow> Options \<Rightarrow>
   string + world \<times> (env \<Rightarrow> Context \<times> world \<Rightarrow> Context \<times> world \<times> event list)" where
  "Cache handler opts =
     (if CacheStore opts = None then Inl ''CacheStore can not be nil''
      else Inr (newCacheHelper opts, HandlerFunc handler opts))"

definition CacheByURI ::
  "Options \<Rightarrow> string + world \<times> (env \<Rightarrow> Context \<times> world \<Rightarrow> Context \<times> world \<times> event list)" where
  "CacheByURI opts = Cache (\<lambda>c. (RequestURI c, True)) opts"

definition CacheByPath ::
  "Options \<Rightarrow> string + world \<times> (env \<Rightarrow> Context \<times> world \<Rightarrow> Context \<times> world \<times> event list)" where
  "CacheByPath opts = Cache (\<lambda>c. (Path c, True)) opts"

subsection \<open>A sample request\<close>

text \<open>
  A client connection, a request for \<^verbatim>\<open>/a?x=1\<close> whose handler sets a header with two
  values, the status 201 and the body \<^verbatim>\<open>hi\<close>, a configuration with coalescing and a
  logger, and a store that misses. The results below are instantiated on them.
\<close>

definition ex_sink :: sink where
  "ex_sink =
     \<lparr>sink_status = 200, sink_header = [], sent = None, sink_body = [], room = None,
      calls = []\<rparr>"

definition ex_Context :: Context where
  "ex_Context =
     \<lparr>RequestURI = ''/a?x=1'', Path = ''/a'', Writer = Sink ex_sink,
      handlers = [OpHeaderAdd ''Set-Cookie'' ''a=1'', OpHeaderAdd ''Set-Cookie'' ''b=2'',
                  OpWriteHeader 201, OpWrite ''hi''],
      invoked = 0, aborted = False\<rparr>"

definition ex_Options :: Options where
  "ex_Options =
     \<lparr>CacheStore = Some StoreHandle, CacheDuration = 60, DisableSingleFlight = False,
      SingleflightForgetTime = 0, Logger = Some LoggerHandle\<rparr>"

definition ex_env :: env where
  "ex_env = \<lparr>get_reply = Inl ErrCacheMiss, set_reply = None, do_reply = Leader False\<rparr>"

definition ex_snapshot :: responseCache where
  "ex_snapshot =
     \<lparr>Status = 201, Header = [(''Set-Cookie'', [''a=1'', ''b=2''])], Data = ''hi''\<rparr>"

text \<open>The capture writer of the caller that ran the sample handler, as a follower is handed it.\<close>

definition ex_leader_writer :: responseCacheWriter where
  "ex_leader_writer =
     ResponseCacheWriter
       (Sink \<lparr>sink_status = 201, sink_header = [(''Set-Cookie'', [''a=1'', ''b=2''])],
              sent = Some (201, [(''Set-Cookie'', [''a=1'', ''b=2''])]),
              sink_body = ''hi'', room = None,
              calls = [CHeaderAdd ''Set-Cookie'' ''a=1'', CHeaderAdd ''Set-Cookie'' ''b=2'',
                       CWriteHeader 201, CWrite ''hi'']\<rparr>)
       ''hi''"

subsection \<open>Notions used to state the results\<close>

text \<open>
  The context after the writer swap of line 73; whether the handler runs in this caller
  (inline, or as the function given to \<^verbatim>\<open>Do\<close>); the \<^verbatim>\<open>shared\<close> flag; the context when the
  snapshot is filled; the capture writer it is filled from; the filled snapshot; and the
  calls of the coalescing step. All are read off \<open>writePath\<close>, which
  \<open>writePath_result\<close> below restates in their terms.
\<close>

definition swapped :: "Context \<Rightarrow> Context" where
  "swapped c = c\<lparr>Writer := Capture (ResponseCacheWriter (Writer c) [])\<rparr>"

definition runs_handler :: "Options \<Rightarrow> env \<Rightarrow> bool" where
  "runs_handler opts e =
     (if DisableSingleFlight opts then True
      else case do_reply e of Leader dups \<Rightarrow> True | Follower w \<Rightarrow> False)"

definition is_shared :: "Options \<Rightarrow> env \<Rightarrow> bool" where
  "is_shared opts e = (if DisableSingleFlight opts then False else shared_of (do_reply e))"

definition after_run :: "Options \<Rightarrow> env \<Rightarrow> Context \<Rightarrow> Context" where
  "after_run opts e c = (if runs_handler opts e then Next (swapped c) else swapped c)"

definition filled_from :: "Options \<Rightarrow> env \<Rightarrow> Context \<Rightarrow> responseCacheWriter" where
  "filled_from opts e c =
     (if DisableSingleFlight opts then cacheWriter_of (Writer (Next (swapped c)))
      else case do_reply e of
             Leader dups \<Rightarrow> cacheWriter_of (Writer (Next (swapped c)))
           | Follower w \<Rightarrow> w)"

definition write_snapshot :: "Options \<Rightarrow> env \<Rightarrow> Context \<Rightarrow> responseCache" where
  "write_snapshot opts e c = fill zero_responseCache (filled_from opts e c)"

definition do_events :: "Options \<Rightarrow> env \<Rightarrow> string \<Rightarrow> event list" where
  "do_events opts e k =
     (if DisableSingleFlight opts then []
      else EvDo k #
           (case do_reply e of
              Leader dups \<Rightarrow>
                (if SingleflightForgetTime opts > 0
                 then [EvGoForget k (SingleflightForgetTime opts)] else [])
            | Follower w \<Rightarrow> []))"

text \<open>The calls one replay makes on the sink, read off \<open>respondWithCache\<close>.\<close>

definition replay_calls :: "responseCache \<Rightarrow> sink_call list" where
  "replay_calls s =
     CWriteHeader (Status s)
     # concat (map (\<lambda>(k, vals). map (CHeaderSet k) vals) (Header s))
     @ [CWrite (Data s)]"

text \<open>Classes of calls, to count them in the calls of a request.\<close>

fun is_PoolOp :: "event \<Rightarrow> bool" where
  "is_PoolOp (EvPoolGet a) = True"
| "is_PoolOp (EvPoolPut a) = True"
| "is_PoolOp ev = False"

fun is_Printf :: "event \<Rightarrow> bool" where
  "is_Printf (EvPrintf fmt err) = True"
| "is_Printf ev = False"

text \<open>
  The key function of \<^verbatim>\<open>CacheByPath\<close>, and a cache instance that has served one request
  before: one snapshot object, back in the pool.
\<close>

definition ex_key :: "Context \<Rightarrow> string \<times> bool" where
  "ex_key c = (Path c, True)"

definition ex_world :: world where
  "ex_world =
     \<lparr>responseCachePool = [0], options = ex_Options,
      heap = (\<lambda>a. zero_responseCache), next_addr = 1\<rparr>"

section \<open>Properties\<close>

subsection \<open>The capture writer\<close>

lemma Write_eq:
  "Write w b =
     (ResponseCacheWriter (fst (rw_Write (ResponseWriter w) b)) (body w @ b),
      snd (rw_Write (ResponseWriter w) b))"
  by (cases w) (simp split: prod.splits)

lemma WriteString_eq:
  "WriteString w s =
     (ResponseCacheWriter (fst (rw_WriteString (ResponseWriter w) s)) (body w @ s),
      snd (rw_WriteString (ResponseWriter w) s))"
  by (cases w) (simp split: prod.splits)

lemma body_Writes:
  "body (foldl (\<lambda>w b. fst (Write w b)) w bs) = body w @ concat bs"
  by (induction bs arbitrary: w) (simp_all add: Write_eq)

lemma body_WriteStrings:
  "body (foldl (\<lambda>w s. fst (WriteString w s)) w ss) = body w @ concat ss"
  by (induction ss arbitrary: w) (simp_all add: WriteString_eq)

text \<open>
  C10. \<^verbatim>\<open>Write\<close> (and \<^verbatim>\<open>WriteString\<close>) appends the bytes to the writer's own buffer,
  forwards them to the wrapped writer and returns the wrapped writer's count and error;
  after any sequence of writes the buffer is the old buffer followed by all the byte
  sequences written, whatever the wrapped writer answered to each of them.
\<close>

theorem C10_dual_write:
  "Write w b =
     (ResponseCacheWriter (fst (rw_Write (ResponseWriter w) b)) (body w @ b),
      snd (rw_Write (ResponseWriter w) b))
   \<and> WriteString w s =
     (ResponseCacheWriter (fst (rw_WriteString (ResponseWriter w) s)) (body w @ s),
      snd (rw_WriteString (ResponseWriter w) s))
   \<and> body (foldl (\<lambda>w b. fst (Write w b)) w bs) = body w @ concat bs
   \<and> body (foldl (\<lambda>w s. fst (WriteString w s)) w ss) = body w @ concat ss"
  using Write_eq WriteString_eq body_Writes body_WriteStrings by blast

text \<open>
  The capture writer the closure installs is what \<^verbatim>\<open>reset\<close> leaves of any capture writer:
  an empty buffer around the writer given.
\<close>

lemma reset_result:
  "responseCacheWriter_reset w (Writer c) = ResponseCacheWriter (Writer c) []"
  by (cases w) simp

lemma swapped_reset:
  "swapped c = c\<lparr>Writer := Capture (responseCacheWriter_reset w (Writer c))\<rparr>"
  by (simp add: swapped_def reset_result)

subsection \<open>The sink under the writers\<close>

lemma sink_of_WriteHeader:
  "rw_sink (rw_WriteHeader w code) = sink_WriteHeader (rw_sink w) code"
  "cw_sink (cw_WriteHeader cw code) = sink_WriteHeader (cw_sink cw) code"
  by (induction w and cw rule: rw_sink_cw_sink.induct) simp_all

lemma sink_of_Header_Set:
  "rw_sink (rw_Header_Set w k v) = sink_Header_Set (rw_sink w) k v"
  "cw_sink (cw_Header_Set cw k v) = sink_Header_Set (cw_sink cw) k v"
  by (induction w and cw rule: rw_sink_cw_sink.induct) simp_all

lemma sink_of_Header_Add:
  "rw_sink (rw_Header_Add w k v) = sink_Header_Add (rw_sink w) k v"
  "cw_sink (cw_Header_Add cw k v) = sink_Header_Add (cw_sink cw) k v"
  by (induction w and cw rule: rw_sink_cw_sink.induct) simp_all

lemma sink_of_Write:
  "rw_sink (fst (rw_Write w b)) = fst (sink_Write (rw_sink w) b)"
  "cw_sink (fst (Write cw b)) = fst (sink_Write (cw_sink cw) b)"
  by (induction w and cw rule: rw_sink_cw_sink.induct) (simp_all add: prod.case_eq_if)

lemma result_of_Write:
  "snd (rw_Write w b) = snd (sink_Write (rw_sink w) b)"
  "snd (Write cw b) = snd (sink_Write (cw_sink cw) b)"
  by (induction w and cw rule: rw_sink_cw_sink.induct) (simp_all add: prod.case_eq_if)

lemma send_head_fields [simp]:
  "calls (send_head s) = calls s" "sink_status (send_head s) = sink_status s"
  "sink_header (send_head s) = sink_header s" "sink_body (send_head s) = sink_body s"
  "room (send_head s) = room s"
  by (simp_all add: send_head_def split: option.splits)

lemma calls_sink_Write: "calls (fst (sink_Write s b)) = calls s @ [CWrite b]"
  by (simp add: sink_Write_def Let_def split: option.splits)

lemma status_sink_Write: "sink_status (fst (sink_Write s b)) = sink_status s"
  by (simp add: sink_Write_def Let_def split: option.splits)

lemma sent_sink_Write:
  "sent (fst (sink_Write s b)) =
     (case sent s of None \<Rightarrow> Some (sink_status s, sink_header s) | Some h \<Rightarrow> Some h)"
  by (simp add: sink_Write_def Let_def send_head_def split: option.splits)

subsection \<open>The replay\<close>

lemma respondWithCache_options:
  "options m = options m' \<Longrightarrow> respondWithCache m c s = respondWithCache m' c s"
  by (simp add: respondWithCache_def Let_def split: prod.splits option.splits)

lemma respondWithCache_alloc:
  "respondWithCache (m\<lparr>heap := h\<rparr>) c s = respondWithCache m c s"
  "respondWithCache (m\<lparr>next_addr := n\<rparr>) c s = respondWithCache m c s"
  "respondWithCache (m\<lparr>responseCachePool := p\<rparr>) c s = respondWithCache m c s"
  by (rule respondWithCache_options, simp)+

lemma fst_respondWithCache:
  "fst (respondWithCache m c s) = fst (respondWithCache m' c s)"
  by (simp add: respondWithCache_def Let_def split: prod.splits)

lemma Writer_respondWithCache:
  "Writer (fst (respondWithCache m c s)) =
     fst (rw_Write
            (fold (\<lambda>(k, vals) w. fold (\<lambda>v w. rw_Header_Set w k v) vals w) (Header s)
               (rw_WriteHeader (Writer c) (Status s)))
            (Data s))"
  by (simp add: respondWithCache_def Let_def Abort_def split: prod.splits)

lemma calls_set_values:
  "calls (rw_sink (fold (\<lambda>v w. rw_Header_Set w k v) vals w)) =
     calls (rw_sink w) @ map (CHeaderSet k) vals"
  by (induction vals arbitrary: w) (simp_all add: sink_of_Header_Set sink_Header_Set_def)

lemma calls_set_headers:
  "calls (rw_sink (fold (\<lambda>(k, vals) w. fold (\<lambda>v w. rw_Header_Set w k v) vals w) h w)) =
     calls (rw_sink w) @ concat (map (\<lambda>(k, vals). map (CHeaderSet k) vals) h)"
  by (induction h arbitrary: w) (simp_all add: calls_set_values split: prod.splits)

lemma calls_respondWithCache:
  "calls (rw_sink (Writer (fst (respondWithCache m c s)))) =
     calls (rw_sink (Writer c)) @ replay_calls s"
  by (simp add: Writer_respondWithCache sink_of_Write calls_sink_Write calls_set_headers
      sink_of_WriteHeader sink_WriteHeader_def replay_calls_def)

lemma status_set_values:
  "sink_status (rw_sink (fold (\<lambda>v w. rw_Header_Set w k v) vals w)) = sink_status (rw_sink w)"
  by (induction vals arbitrary: w) (simp_all add: sink_of_Header_Set sink_Header_Set_def)

lemma status_set_headers:
  "sink_status (rw_sink (fold (\<lambda>(k, vals) w. fold (\<lambda>v w. rw_Header_Set w k v) vals w) h w)) =
     sink_status (rw_sink w)"
  by (induction h arbitrary: w) (simp_all add: status_set_values split: prod.splits)

text \<open>The stored status reaches a sink whose head is not sent yet, when it is positive.\<close>

lemma status_respondWithCache:
  "0 < Status s \<Longrightarrow> sent (rw_sink (Writer c)) = None \<Longrightarrow>
     sink_status (rw_sink (Writer (fst (respondWithCache m c s)))) = Status s"
  by (simp add: Writer_respondWithCache sink_of_Write status_sink_Write status_set_headers
      sink_of_WriteHeader sink_WriteHeader_def)

lemma aborted_respondWithCache: "aborted (fst (respondWithCache m c s))"
  by (simp add: respondWithCache_def Let_def Abort_def split: prod.splits)

lemma invoked_respondWithCache: "invoked (fst (respondWithCache m c s)) = invoked c"
  by (simp add: respondWithCache_def Let_def Abort_def split: prod.splits)

lemma events_respondWithCache:
  "snd (respondWithCache m c s) = [] \<or>
   (\<exists>x. snd (respondWithCache m c s) = [EvPrintf ''write response error: %v'' x])"
  by (simp add: respondWithCache_def Let_def Printf_def split: prod.splits option.splits)

text \<open>
  The inner loop of the replay calls \<^verbatim>\<open>Set\<close> for each value of a key, and each call
  replaces what the one before stored: of the values of a key only the last reaches the
  sink's header map.
\<close>

lemma header_after_values:
  "vals \<noteq> [] \<Longrightarrow>
     sink_header (rw_sink (fold (\<lambda>v w. rw_Header_Set w k v) vals w)) =
       AList.update k [last vals] (sink_header (rw_sink w))"
proof (induction vals arbitrary: w)
  case Nil
  then show ?case by simp
next
  case (Cons v vs)
  show ?case
  proof (cases "vs = []")
    case True
    then show ?thesis
      by (simp add: sink_of_Header_Set sink_Header_Set_def header_Set_def)
  next
    case False
    with Cons.IH [of "rw_Header_Set w k v"] show ?thesis
      by (simp add: sink_of_Header_Set sink_Header_Set_def header_Set_def)
  qed
qed

lemma body_set_values:
  "sink_body (rw_sink (fold (\<lambda>v w. rw_Header_Set w k v) vals w)) = sink_body (rw_sink w)"
  "room (rw_sink (fold (\<lambda>v w. rw_Header_Set w k v) vals w)) = room (rw_sink w)"
  by (induction vals arbitrary: w) (simp_all add: sink_of_Header_Set sink_Header_Set_def)

lemma body_set_headers:
  "sink_body (rw_sink (fold (\<lambda>(k, vals) w. fold (\<lambda>v w. rw_Header_Set w k v) vals w) h w)) =
     sink_body (rw_sink w)"
  "room (rw_sink (fold (\<lambda>(k, vals) w. fold (\<lambda>v w. rw_Header_Set w k v) vals w) h w)) =
     room (rw_sink w)"
  by (induction h arbitrary: w) (simp_all add: body_set_values split: prod.splits)

lemma body_respondWithCache:
  "room (rw_sink (Writer c)) = None \<Longrightarrow>
     sink_body (rw_sink (Writer (fst (respondWithCache m c s)))) =
       sink_body (rw_sink (Writer c)) @ Data s"
  by (simp add: Writer_respondWithCache sink_of_Write body_set_headers sink_of_WriteHeader
      sink_WriteHeader_def sink_Write_def Let_def)

subsection \<open>The paths of the closure\<close>

lemma setCache_get_reply: "setCache opts (e\<lparr>get_reply := x\<rparr>) = setCache opts e"
  by (simp add: setCache_def CacheStore_Set_def fun_eq_iff)

lemma sfGroup_Do_get_reply: "sfGroup_Do (e\<lparr>get_reply := x\<rparr>) = sfGroup_Do e"
  by (simp add: sfGroup_Do_def fun_eq_iff)

lemma writePath_get_reply:
  "writePath opts (e\<lparr>get_reply := x\<rparr>) k cm = writePath opts e k cm"
  unfolding writePath_def setCache_get_reply sfGroup_Do_get_reply ..

lemma writePath_disabled:
  assumes "DisableSingleFlight opts"
  shows "writePath opts e k (c, m) =
     (Next (swapped c),
      m\<lparr>heap := (heap m)
           (next_addr m := fill zero_responseCache (cacheWriter_of (Writer (Next (swapped c))))),
        next_addr := Suc (next_addr m)\<rparr>,
      EvAlloc (next_addr m)
      # setCache opts e k (fill zero_responseCache (cacheWriter_of (Writer (Next (swapped c))))))"
  using assms by (simp add: writePath_def alloc_responseCache_def Let_def swapped_def)

lemma writePath_follower:
  assumes "\<not> DisableSingleFlight opts" "do_reply e = Follower w"
  shows "writePath opts e k (c, m) =
     (fst (respondWithCache m (swapped c) (fill zero_responseCache w)),
      m\<lparr>heap := (heap m)(next_addr m := fill zero_responseCache w),
        next_addr := Suc (next_addr m)\<rparr>,
      EvAlloc (next_addr m) # EvDo k
      # snd (respondWithCache m (swapped c) (fill zero_responseCache w))
      @ setCache opts e k (fill zero_responseCache w))"
  using assms
  by (simp add: writePath_def alloc_responseCache_def sfGroup_Do_def Let_def swapped_def
      respondWithCache_alloc prod.case_eq_if)

lemma writePath_leader:
  assumes "\<not> DisableSingleFlight opts" "do_reply e = Leader dups"
  shows "writePath opts e k (c, m) =
     ((if dups
       then fst (respondWithCache m (Next (swapped c))
                   (fill zero_responseCache (cacheWriter_of (Writer (Next (swapped c))))))
       else Next (swapped c)),
      m\<lparr>heap := (heap m)
           (next_addr m := fill zero_responseCache (cacheWriter_of (Writer (Next (swapped c))))),
        next_addr := Suc (next_addr m)\<rparr>,
      EvAlloc (next_addr m) # EvDo k
      # (if SingleflightForgetTime opts > 0
         then [EvGoForget k (SingleflightForgetTime opts)] else [])
      @ (if dups
         then snd (respondWithCache m (Next (swapped c))
                     (fill zero_responseCache (cacheWriter_of (Writer (Next (swapped c))))))
         else [])
      @ setCache opts e k (fill zero_responseCache (cacheWriter_of (Writer (Next (swapped c))))))"
  using assms
  by (simp add: writePath_def alloc_responseCache_def sfGroup_Do_def doFn_def Let_def swapped_def
      respondWithCache_alloc prod.case_eq_if)

lemma writePath_result:
  "writePath opts e k (c, m) =
     ((if is_shared opts e
       then fst (respondWithCache m (after_run opts e c) (write_snapshot opts e c))
       else after_run opts e c),
      m\<lparr>heap := (heap m)(next_addr m := write_snapshot opts e c),
        next_addr := Suc (next_addr m)\<rparr>,
      EvAlloc (next_addr m) # do_events opts e k
      @ (if is_shared opts e
         then snd (respondWithCache m (after_run opts e c) (write_snapshot opts e c)) else [])
      @ setCache opts e k (write_snapshot opts e c))"
proof (cases "DisableSingleFlight opts")
  case True
  then show ?thesis
    by (simp add: writePath_disabled is_shared_def after_run_def runs_handler_def
        write_snapshot_def filled_from_def do_events_def)
next
  case False
  show ?thesis
  proof (cases "do_reply e")
    case (Leader dups)
    with False show ?thesis
      by (simp add: writePath_leader is_shared_def after_run_def runs_handler_def
          write_snapshot_def filled_from_def do_events_def)
  next
    case (Follower w)
    with False show ?thesis
      by (simp add: writePath_follower is_shared_def after_run_def runs_handler_def
          write_snapshot_def filled_from_def do_events_def)
  qed
qed

lemma getResponseCache_events:
  "snd (snd (getResponseCache m)) =
     (if responseCachePool m = [] then [EvAlloc (fst (getResponseCache m))] else [])
     @ [EvPoolGet (fst (getResponseCache m))]"
  by (simp add: getResponseCache_def pool_Get_def alloc_responseCache_def split: list.splits)

text \<open>A snapshot handed out by \<^verbatim>\<open>getResponseCache\<close> has an empty body and no headers.\<close>

lemma getResponseCache_clean:
  "Data (heap (fst (snd (getResponseCache m))) (fst (getResponseCache m))) = []"
  "Header (heap (fst (snd (getResponseCache m))) (fst (getResponseCache m))) = []"
  by (simp_all add: getResponseCache_def pool_Get_def alloc_responseCache_def
      responseCache_reset_def split: list.splits)

text \<open>\<^verbatim>\<open>Cache\<close> fails at construction on a nil store and returns the closure otherwise.\<close>

lemma Cache_nil_store:
  "CacheStore opts = None \<Longrightarrow> Cache handler opts = Inl ''CacheStore can not be nil''"
  by (simp add: Cache_def)

lemma Cache_closure:
  "CacheStore opts = Some StoreHandle \<Longrightarrow>
     Cache handler opts = Inr (newCacheHelper opts, HandlerFunc handler opts)"
  by (simp add: Cache_def)

lemma CacheByPath_closure:
  "CacheStore opts = Some StoreHandle \<Longrightarrow>
     CacheByPath opts = Inr (newCacheHelper opts, HandlerFunc ex_key opts)"
proof -
  have "(\<lambda>c. (Path c, True)) = ex_key"
    by (simp add: fun_eq_iff ex_key_def)
  then show "CacheStore opts = Some StoreHandle \<Longrightarrow> ?thesis"
    by (simp add: CacheByPath_def Cache_def)
qed

lemma HandlerFunc_error:
  assumes "handler c = (cacheKey, True)" "get_reply e = Inl err"
  shows "HandlerFunc handler opts e (c, m) =
     (fst (writePath opts e cacheKey (c, fst (snd (getResponseCache m)))),
      fst (putResponseCache
             (fst (snd (writePath opts e cacheKey (c, fst (snd (getResponseCache m))))))
             (fst (getResponseCache m))),
      (snd (snd (getResponseCache m)) @ [EvStoreGet cacheKey])
      @ (if err \<noteq> ErrCacheMiss then Printf (Logger opts) ''get cache: %v'' err else [])
      @ snd (snd (writePath opts e cacheKey (c, fst (snd (getResponseCache m)))))
      @ [EvPoolPut (fst (getResponseCache m))])"
  using assms
  by (simp add: HandlerFunc_def CacheStore_Get_def putResponseCache_def pool_Put_def Let_def
      split: prod.splits)

lemma HandlerFunc_hit:
  assumes "handler c = (cacheKey, True)" "get_reply e = Inr v"
  shows "HandlerFunc handler opts e (c, m) =
     (fst (respondWithCache m c v),
      fst (putResponseCache
             ((fst (snd (getResponseCache m)))
                \<lparr>heap := (heap (fst (snd (getResponseCache m))))(fst (getResponseCache m) := v)\<rparr>)
             (fst (getResponseCache m))),
      snd (snd (getResponseCache m)) @ [EvStoreGet cacheKey]
      @ snd (respondWithCache m c v)
      @ [EvPoolPut (fst (getResponseCache m))])"
proof -
  have "options (fst (snd (getResponseCache m))) = options m"
    by (simp add: getResponseCache_def pool_Get_def alloc_responseCache_def
        split: list.splits)
  then have "\<And>h. respondWithCache ((fst (snd (getResponseCache m)))\<lparr>heap := h\<rparr>) c v =
      respondWithCache m c v"
    by (intro respondWithCache_options) simp
  with assms show ?thesis
    by (simp add: HandlerFunc_def CacheStore_Get_def putResponseCache_def pool_Put_def
        prod.case_eq_if)
qed

text \<open>
  What does hold of a hit, whatever the body write returns: the context is aborted, the
  handler is not run, and the sink received the calls of one replay. A positive stored
  status reaches a sink whose head is not sent yet.
\<close>

lemma hit_is_terminal:
  assumes "handler c = (cacheKey, True)" and "get_reply e = Inr v"
  shows "aborted (fst (HandlerFunc handler opts e (c, m)))"
    and "invoked (fst (HandlerFunc handler opts e (c, m))) = invoked c"
    and "calls (rw_sink (Writer (fst (HandlerFunc handler opts e (c, m))))) =
           calls (rw_sink (Writer c)) @ replay_calls v"
  using assms
  by (simp_all add: HandlerFunc_hit [where v = v] aborted_respondWithCache
      invoked_respondWithCache calls_respondWithCache)

lemma hit_status:
  assumes "handler c = (cacheKey, True)" and "get_reply e = Inr v"
    and "0 < Status v" and "sent (rw_sink (Writer c)) = None"
  shows "sink_status (rw_sink (Writer (fst (HandlerFunc handler opts e (c, m))))) = Status v"
  using assms
  by (simp add: HandlerFunc_hit [where v = v] status_respondWithCache)

text \<open>The function given to \<^verbatim>\<open>Do\<close> starts the forget timer exactly when the time is positive.\<close>

lemma leader_starts_forget_timer:
  assumes "\<not> DisableSingleFlight opts" and "do_reply e = Leader dups"
  shows "(EvGoForget k (SingleflightForgetTime opts) \<in> set (do_events opts e k)) =
           (SingleflightForgetTime opts > 0)"
  using assms by (simp add: do_events_def)

subsection \<open>Counting the calls of a request\<close>

lemma filter_Printf [simp]:
  "filter is_StoreSet (Printf l fmt x) = []"
  "filter (\<lambda>ev. is_PoolOp ev \<or> is_StoreGet ev) (Printf l fmt x) = []"
  by (simp_all add: Printf_def)

lemma filter_respondWithCache [simp]:
  "filter is_StoreSet (snd (respondWithCache m c s)) = []"
  "filter (\<lambda>ev. is_PoolOp ev \<or> is_StoreGet ev) (snd (respondWithCache m c s)) = []"
  using events_respondWithCache [of m c s] by auto

lemma filter_do_events [simp]:
  "filter is_StoreSet (do_events opts e k) = []"
  "filter (\<lambda>ev. is_PoolOp ev \<or> is_StoreGet ev) (do_events opts e k) = []"
  by (simp_all add: do_events_def split: do_reply.splits)

lemma filter_setCache [simp]:
  "filter is_StoreSet (setCache opts e k s) = [EvStoreSet k s (CacheDuration opts)]"
  "filter (\<lambda>ev. is_PoolOp ev \<or> is_StoreGet ev) (setCache opts e k s) = []"
  by (simp_all add: setCache_def CacheStore_Set_def split: option.splits)

lemma filter_getResponseCache [simp]:
  "filter is_StoreSet (snd (snd (getResponseCache m))) = []"
  "filter (\<lambda>ev. is_PoolOp ev \<or> is_StoreGet ev) (snd (snd (getResponseCache m))) =
     [EvPoolGet (fst (getResponseCache m))]"
  by (simp_all add: getResponseCache_events)


lemma after_run_cases:
  "\<not> DisableSingleFlight opts \<Longrightarrow>
     (case do_reply e of
        Leader dups \<Rightarrow> after_run opts e c = Next (swapped c)
      | Follower w \<Rightarrow>
          after_run opts e c = swapped c \<and> write_snapshot opts e c = fill zero_responseCache w)"
  by (simp add: after_run_def runs_handler_def write_snapshot_def filled_from_def
      split: do_reply.splits)

lemma ex_key_sample: "ex_key ex_Context = (''/a'', True)"
  by (simp add: ex_key_def ex_Context_def)

subsection \<open>Requests the key function excludes\<close>

text \<open>
  C7. When the key function answers \<^verbatim>\<open>shouldCache = false\<close> the closure is exactly
  \<^verbatim>\<open>c.Next()\<close>: the context is the one the next stage leaves (no writer swap), the pool,
  the snapshot objects and the options are untouched, and no call is made on the store,
  the pool, the logger or the coalescing group.
\<close>

theorem C7_bypass:
  "handler c = (cacheKey, False) \<Longrightarrow> HandlerFunc handler opts e (c, m) = (Next c, m, [])"
  by (simp add: HandlerFunc_def)

theorem C7_bypass_witness:
  "(\<lambda>c. (Path c, False)) ex_Context = (''/a'', False) \<and>
   HandlerFunc (\<lambda>c. (Path c, False)) ex_Options ex_env (ex_Context, newCacheHelper ex_Options) =
     (Next ex_Context, newCacheHelper ex_Options, [])"
  using C7_bypass [of "\<lambda>c. (Path c, False)" ex_Context "''/a''" ex_Options ex_env
      "newCacheHelper ex_Options"]
  by (simp add: ex_Context_def)

subsection \<open>Errors of the lookup\<close>

text \<open>
  C8. When \<^verbatim>\<open>CacheStore.Get\<close> returns an error other than \<^verbatim>\<open>ErrCacheMiss\<close>, the request
  is served exactly as a miss: the same context and the same cache instance result, by the
  same write path, and the calls made are those of the miss with one \<^verbatim>\<open>Printf\<close> of the
  error inserted right after the lookup when a logger is configured, and with nothing
  inserted when none is. On the miss itself nothing has been logged when the write path
  starts.
\<close>

theorem C8_lookup_error:
  assumes "handler c = (cacheKey, True)" and "err \<noteq> ErrCacheMiss"
  shows "let g = getResponseCache m;
             w = writePath opts e cacheKey (c, fst (snd g));
             pre = snd (snd g) @ [EvStoreGet cacheKey];
             post = snd (snd w) @ [EvPoolPut (fst g)];
             m' = fst (putResponseCache (fst (snd w)) (fst g))
         in HandlerFunc handler opts (e\<lparr>get_reply := Inl ErrCacheMiss\<rparr>) (c, m) =
              (fst w, m', pre @ post)
          \<and> HandlerFunc handler opts (e\<lparr>get_reply := Inl err\<rparr>) (c, m) =
              (fst w, m',
               pre @ (if Logger opts \<noteq> None then [EvPrintf ''get cache: %v'' err] else []) @ post)
          \<and> filter is_Printf pre = []"
  using assms
  by (simp add: HandlerFunc_error [where err = err] HandlerFunc_error [where err = ErrCacheMiss]
      writePath_get_reply Let_def Printf_def getResponseCache_events)

theorem C8_lookup_error_witness:
  "ex_key ex_Context = (''/a'', True) \<and> Err ''redis: timeout'' \<noteq> ErrCacheMiss
   \<and> (let g = getResponseCache ex_world;
           w = writePath ex_Options ex_env ''/a'' (ex_Context, fst (snd g));
           pre = snd (snd g) @ [EvStoreGet ''/a''];
           post = snd (snd w) @ [EvPoolPut (fst g)];
           m' = fst (putResponseCache (fst (snd w)) (fst g))
       in HandlerFunc ex_key ex_Options (ex_env\<lparr>get_reply := Inl ErrCacheMiss\<rparr>)
            (ex_Context, ex_world) = (fst w, m', pre @ post)
        \<and> HandlerFunc ex_key ex_Options (ex_env\<lparr>get_reply := Inl (Err ''redis: timeout'')\<rparr>)
            (ex_Context, ex_world) =
            (fst w, m',
             pre @ (if Logger ex_Options \<noteq> None
                    then [EvPrintf ''get cache: %v'' (Err ''redis: timeout'')] else []) @ post)
        \<and> filter is_Printf pre = [])"
proof -
  have ne: "Err ''redis: timeout'' \<noteq> ErrCacheMiss" by simp
  from C8_lookup_error [where handler = ex_key and opts = ex_Options and m = ex_world
      and e = ex_env, OF ex_key_sample ne] ex_key_sample
  show ?thesis by simp
qed

subsection \<open>The store write\<close>

text \<open>
  C2, as the code has it. Every caller that reaches the write path calls
  \<^verbatim>\<open>CacheStore.Set\<close> exactly once, with the cache key, the snapshot filled from the capture
  writer it ended with (its own when it ran the handler, the leader's when it is a
  follower) and the configured duration: the leader, every follower, and every caller when
  coalescing is disabled.
\<close>

theorem C2_set_by_every_caller:
  assumes "handler c = (cacheKey, True)" and "get_reply e = Inl err"
  shows "filter is_StoreSet (snd (snd (HandlerFunc handler opts e (c, m)))) =
           [EvStoreSet cacheKey (write_snapshot opts e c) (CacheDuration opts)]"
  using assms by (simp add: HandlerFunc_error [where err = err] writePath_result)

theorem C2_set_by_every_caller_witness:
  "ex_key ex_Context = (''/a'', True)
   \<and> get_reply (ex_env\<lparr>do_reply := Follower ex_leader_writer\<rparr>) = Inl ErrCacheMiss
   \<and> filter is_StoreSet (snd (snd
        (HandlerFunc ex_key ex_Options (ex_env\<lparr>do_reply := Follower ex_leader_writer\<rparr>)
           (ex_Context, ex_world)))) =
       [EvStoreSet ''/a''
          (write_snapshot ex_Options (ex_env\<lparr>do_reply := Follower ex_leader_writer\<rparr>) ex_Context)
          (CacheDuration ex_Options)]"
proof -
  have g: "get_reply (ex_env\<lparr>do_reply := Follower ex_leader_writer\<rparr>) = Inl ErrCacheMiss"
    by (simp add: ex_env_def)
  from C2_set_by_every_caller [where handler = ex_key and opts = ex_Options and m = ex_world,
      OF ex_key_sample g] ex_key_sample g
  show ?thesis by simp
qed

text \<open>
  C2 as stated fails: a follower of the sample request (\<^verbatim>\<open>shared\<close> true, its handler not
  run) is handed the leader's capture writer and calls \<^verbatim>\<open>Set\<close> with the snapshot.
\<close>

theorem C2_follower_sets_counterexample:
  "shared_of (do_reply (ex_env\<lparr>do_reply := Follower ex_leader_writer\<rparr>))
   \<and> invoked (fst (HandlerFunc ex_key ex_Options (ex_env\<lparr>do_reply := Follower ex_leader_writer\<rparr>)
        (ex_Context, ex_world))) = 0
   \<and> filter is_StoreSet (snd (snd
        (HandlerFunc ex_key ex_Options (ex_env\<lparr>do_reply := Follower ex_leader_writer\<rparr>)
           (ex_Context, ex_world)))) = [EvStoreSet ''/a'' ex_snapshot 60]"
  by code_simp

subsection \<open>The snapshot pool\<close>




subsection \<open>Replay to coalesced callers\<close>

text \<open>
  What the code does with the flag: with coalescing enabled, a caller on the write path
  replays the filled snapshot to its own sink if and only if the \<^verbatim>\<open>shared\<close> flag that
  \<^verbatim>\<open>Do\<close> gave it is true. With the flag false the context is the one the handler left and
  the sink received no call after the handler's; with the flag true the sink received the
  calls of one replay (never none) after what it had. A follower's handler is not run, its
  sink is its own, and the snapshot it replays is filled from the capture writer of the
  leader.
\<close>

lemma replay_follows_flag:
  assumes "handler c = (cacheKey, True)" and "get_reply e = Inl err"
    and "\<not> DisableSingleFlight opts"
  shows "let c' = fst (HandlerFunc handler opts e (c, m));
             c2 = after_run opts e c;
             snap = write_snapshot opts e c
         in c' = (if shared_of (do_reply e) then fst (respondWithCache m c2 snap) else c2)
          \<and> calls (rw_sink (Writer c')) =
              calls (rw_sink (Writer c2))
              @ (if shared_of (do_reply e) then replay_calls snap else [])
          \<and> replay_calls snap \<noteq> []
          \<and> (case do_reply e of
                Leader dups \<Rightarrow> c2 = Next (swapped c)
              | Follower w \<Rightarrow>
                  c2 = swapped c \<and> snap = fill zero_responseCache w
                  \<and> rw_sink (Writer c2) = rw_sink (Writer c) \<and> invoked c' = invoked c)"
proof -
  let ?c2 = "after_run opts e c" and ?snap = "write_snapshot opts e c"
  let ?m1 = "fst (snd (getResponseCache m))"
  have c': "fst (HandlerFunc handler opts e (c, m)) =
      (if shared_of (do_reply e) then fst (respondWithCache m ?c2 ?snap) else ?c2)"
    using assms fst_respondWithCache [of ?m1 ?c2 ?snap m]
    by (simp add: HandlerFunc_error [where err = err] writePath_result is_shared_def)
  have calls: "calls (rw_sink (Writer (fst (HandlerFunc handler opts e (c, m))))) =
      calls (rw_sink (Writer ?c2)) @ (if shared_of (do_reply e) then replay_calls ?snap else [])"
    by (simp add: c' calls_respondWithCache)
  have ne: "replay_calls ?snap \<noteq> []"
    by (simp add: replay_calls_def)
  have cases: "(case do_reply e of
        Leader dups \<Rightarrow> ?c2 = Next (swapped c)
      | Follower w \<Rightarrow>
          ?c2 = swapped c \<and> ?snap = fill zero_responseCache w
          \<and> rw_sink (Writer ?c2) = rw_sink (Writer c)
          \<and> invoked (fst (HandlerFunc handler opts e (c, m))) = invoked c)"
    using after_run_cases [OF assms(3), of e c]
    by (auto simp: c' invoked_respondWithCache swapped_def split: do_reply.splits)
  show ?thesis
    unfolding Let_def using c' calls ne cases by blast
qed

text \<open>
  The flag is not the role. \<^verbatim>\<open>Do\<close> reports \<^verbatim>\<open>shared\<close> to the caller that ran the function
  as soon as one other caller joined, so a leader that has a follower takes the replay
  branch: for every leader the sink receives, after all the handler wrote, the calls of one
  more replay of the snapshot filled from its own capture writer.
\<close>

lemma leader_with_follower_replays:
  assumes "handler c = (cacheKey, True)" and "get_reply e = Inl err"
    and "\<not> DisableSingleFlight opts" and "do_reply e = Leader True"
  shows "calls (rw_sink (Writer (fst (HandlerFunc handler opts e (c, m))))) =
           calls (rw_sink (Writer (Next (swapped c))))
           @ replay_calls (fill zero_responseCache (cacheWriter_of (Writer (Next (swapped c)))))"
proof -
  let ?m1 = "fst (snd (getResponseCache m))"
  let ?c2 = "Next (swapped c)"
  have "fst (HandlerFunc handler opts e (c, m)) =
      fst (respondWithCache ?m1 ?c2 (fill zero_responseCache (cacheWriter_of (Writer ?c2))))"
    using assms
    by (simp add: HandlerFunc_error [where err = err] writePath_leader [where dups = True])
  then show ?thesis
    by (simp add: calls_respondWithCache)
qed

text \<open>
  C6, at an input where the code departs from it. The leader of the sample request has a
  follower, so \<^verbatim>\<open>Do\<close> hands it \<^verbatim>\<open>shared\<close> true. It ran the handler itself, and the snapshot
  it fills and stores is the captured one; the code then replays that snapshot to the
  leader's own sink, on top of the response the handler streamed: the sink receives the
  four calls of the replay after the handler's four, and the client receives the body
  twice. (With \<^verbatim>\<open>shared\<close> false the same leader's sink receives the handler's calls only.)
\<close>

theorem C6_leader_replays_on_live_response:
  "shared_of (do_reply (ex_env\<lparr>do_reply := Leader True\<rparr>))
   \<and> invoked (fst (HandlerFunc ex_key ex_Options (ex_env\<lparr>do_reply := Leader True\<rparr>)
        (ex_Context, ex_world))) = 1
   \<and> filter is_StoreSet (snd (snd (HandlerFunc ex_key ex_Options
        (ex_env\<lparr>do_reply := Leader True\<rparr>) (ex_Context, ex_world)))) =
       [EvStoreSet ''/a'' ex_snapshot 60]
   \<and> calls (rw_sink (Writer (fst (HandlerFunc ex_key ex_Options
        (ex_env\<lparr>do_reply := Leader True\<rparr>) (ex_Context, ex_world))))) =
       [CHeaderAdd ''Set-Cookie'' ''a=1'', CHeaderAdd ''Set-Cookie'' ''b=2'',
        CWriteHeader 201, CWrite ''hi'',
        CWriteHeader 201, CHeaderSet ''Set-Cookie'' ''a=1'', CHeaderSet ''Set-Cookie'' ''b=2'',
        CWrite ''hi'']
   \<and> sink_body (rw_sink (Writer (fst (HandlerFunc ex_key ex_Options
        (ex_env\<lparr>do_reply := Leader True\<rparr>) (ex_Context, ex_world))))) = ''hihi''
   \<and> calls (rw_sink (Writer (fst (HandlerFunc ex_key ex_Options
        (ex_env\<lparr>do_reply := Leader False\<rparr>) (ex_Context, ex_world))))) =
       [CHeaderAdd ''Set-Cookie'' ''a=1'', CHeaderAdd ''Set-Cookie'' ''b=2'',
        CWriteHeader 201, CWrite ''hi'']
   \<and> sink_body (rw_sink (Writer (fst (HandlerFunc ex_key ex_Options
        (ex_env\<lparr>do_reply := Leader False\<rparr>) (ex_Context, ex_world))))) = ''hi''"
  by code_simp

subsection \<open>Headers with several values\<close>

text \<open>
  C3, at an input where the code departs from it. The snapshot holds two values for
  \<^verbatim>\<open>Set-Cookie\<close>. The replay writes the status, calls \<^verbatim>\<open>Set\<close> once for each value and
  writes the body, in that order; the sink's header map ends with the second value only,
  and that is the header the client is sent.
\<close>

theorem C3_replay_keeps_last_value:
  "Header ex_snapshot = [(''Set-Cookie'', [''a=1'', ''b=2''])]
   \<and> calls (rw_sink (Writer (fst (respondWithCache ex_world ex_Context ex_snapshot)))) =
       [CWriteHeader 201, CHeaderSet ''Set-Cookie'' ''a=1'', CHeaderSet ''Set-Cookie'' ''b=2'',
        CWrite ''hi'']
   \<and> sink_header (rw_sink (Writer (fst (respondWithCache ex_world ex_Context ex_snapshot)))) =
       [(''Set-Cookie'', [''b=2''])]
   \<and> sent (rw_sink (Writer (fst (respondWithCache ex_world ex_Context ex_snapshot)))) =
       Some (201, [(''Set-Cookie'', [''b=2''])])"
  by code_simp

text \<open>
  C5, at an input where the code departs from it. The store returns the snapshot with two
  values for \<^verbatim>\<open>Set-Cookie\<close>: the handler is not run and the context is aborted, the client
  is sent the stored status and body, and of the header the second value only.
\<close>

theorem C5_hit_drops_header_values:
  "Header ex_snapshot = [(''Set-Cookie'', [''a=1'', ''b=2''])]
   \<and> invoked (fst (HandlerFunc ex_key ex_Options (ex_env\<lparr>get_reply := Inr ex_snapshot\<rparr>)
         (ex_Context, ex_world))) = 0
   \<and> aborted (fst (HandlerFunc ex_key ex_Options (ex_env\<lparr>get_reply := Inr ex_snapshot\<rparr>)
         (ex_Context, ex_world)))
   \<and> sink_body (rw_sink (Writer (fst
        (HandlerFunc ex_key ex_Options (ex_env\<lparr>get_reply := Inr ex_snapshot\<rparr>)
           (ex_Context, ex_world))))) = ''hi''
   \<and> sent (rw_sink (Writer (fst
        (HandlerFunc ex_key ex_Options (ex_env\<lparr>get_reply := Inr ex_snapshot\<rparr>)
           (ex_Context, ex_world))))) = Some (201, [(''Set-Cookie'', [''b=2''])])"
  by code_simp

text \<open>
  C1, at an input where the code departs from it. The leader of the sample request runs
  the handler, and its client is sent both values of \<^verbatim>\<open>Set-Cookie\<close>. A follower is handed
  the leader's capture writer; its handler is not run, and its client is sent the second
  value only. (When \<^verbatim>\<open>Do\<close> reports \<^verbatim>\<open>shared\<close> to the leader as well, the leader
  replays on top of what it streamed, and its client receives the body twice.)
\<close>

theorem C1_follower_reply_differs:
  "cacheWriter_of (Writer (fst (HandlerFunc ex_key ex_Options ex_env (ex_Context, ex_world)))) =
     ex_leader_writer
   \<and> sent (rw_sink (Writer (fst
        (HandlerFunc ex_key ex_Options ex_env (ex_Context, ex_world))))) =
       Some (201, [(''Set-Cookie'', [''a=1'', ''b=2''])])
   \<and> invoked (fst (HandlerFunc ex_key ex_Options (ex_env\<lparr>do_reply := Follower ex_leader_writer\<rparr>)
        (ex_Context, ex_world))) = 0
   \<and> sent (rw_sink (Writer (fst
        (HandlerFunc ex_key ex_Options (ex_env\<lparr>do_reply := Follower ex_leader_writer\<rparr>)
           (ex_Context, ex_world))))) =
       Some (201, [(''Set-Cookie'', [''b=2''])])
   \<and> sink_body (rw_sink (Writer (fst
        (HandlerFunc ex_key ex_Options (ex_env\<lparr>do_reply := Follower ex_leader_writer\<rparr>)
           (ex_Context, ex_world))))) = ''hi''
   \<and> sink_body (rw_sink (Writer (fst
        (HandlerFunc ex_key ex_Options (ex_env\<lparr>do_reply := Leader True\<rparr>)
           (ex_Context, ex_world))))) = ''hihi''"
  by code_simp

end
